theory Spec2Isabelle
  imports Complex_Main "HOL-Library.Stream"
begin

section \<open>Python values\<close>

text \<open>
  A Python \<open>str\<close> is a \<^typ>\<open>string\<close>; one \<^typ>\<open>char\<close> stands for one code point
  below 256, so that \<open>s[:n]\<close> is \<^term>\<open>take n s\<close>. The predicates below are
  \<open>str.isdigit\<close> and \<open>str.isspace\<close> on that range: besides \<open>0\<close>..\<open>9\<close> Python counts
  the superscripts U+00B2, U+00B3 and U+00B9 as digits, and besides the ASCII blanks it
  counts U+001C..U+001F, U+0085 and U+00A0 as white space.
\<close>

definition isdigit :: "char \<Rightarrow> bool" where
  "isdigit c = (let n = (of_char c :: nat) in (48 \<le> n \<and> n \<le> 57) \<or> n = 178 \<or> n = 179 \<or> n = 185)"

definition isspace :: "char \<Rightarrow> bool" where
  "isspace c = (let n = (of_char c :: nat) in
     (9 \<le> n \<and> n \<le> 13) \<or> (28 \<le> n \<and> n \<le> 32) \<or> n = 133 \<or> n = 160)"

definition strip :: "string \<Rightarrow> string" where
  "strip s = rev (dropWhile isspace (rev (dropWhile isspace s)))"

text \<open>
  \<open>str.upper\<close>, on the ASCII letters. The program only compares the result with
  \<open>'GET'\<close> and \<open>'POST'\<close>, and no other code point below 256 is turned into one of
  their letters.
\<close>

definition upper_char :: "char \<Rightarrow> char" where
  "upper_char c = (let n = (of_char c :: nat) in if 97 \<le> n \<and> n \<le> 122 then char_of (n - 32) else c)"

definition upper :: "string \<Rightarrow> string" where
  "upper s = map upper_char s"

text \<open>\<open>str(n)\<close> for a non-negative integer: its decimal digits.\<close>

fun str_nat :: "nat \<Rightarrow> string" where
  "str_nat n = (if n < 10 then [''0123456789'' ! n]
               else str_nat (n div 10) @ [''0123456789'' ! (n mod 10)])"

declare str_nat.simps [simp del]

text \<open>
  What \<open>response.json()\<close> can return. A JSON object is a Python \<open>dict\<close>, kept as an
  association list read with \<^const>\<open>map_of\<close>; \<open>JNull\<close> is \<open>None\<close>.
\<close>

datatype json =
    JNull
  | JBool bool
  | JInt int
  | JFloat rat
  | JStr string
  | JArr "json list"
  | JObj "(string \<times> json) list"

text \<open>Python's truth value of such a value, as \<open>if data\<close> and \<open>if lead_id\<close> test it.\<close>

fun truthy :: "json \<Rightarrow> bool" where
  "truthy JNull = False"
| "truthy (JBool b) = b"
| "truthy (JInt i) = (i \<noteq> 0)"
| "truthy (JFloat q) = (q \<noteq> 0)"
| "truthy (JStr s) = (s \<noteq> [])"
| "truthy (JArr xs) = (xs \<noteq> [])"
| "truthy (JObj kvs) = (kvs \<noteq> [])"

text \<open>
  \<open>str(v)\<close> and \<open>'{}'.format(v)\<close>: a \<open>str\<close> is itself; for every other value
  Python's rendering is a parameter \<open>repr\<close> of the model.
\<close>

fun str_json :: "(json \<Rightarrow> string) \<Rightarrow> json \<Rightarrow> string" where
  "str_json repr (JStr s) = s"
| "str_json repr v = repr v"

text \<open>
  One cell of the data frame. \<open>pd.read_csv\<close> gives a \<open>str\<close> for text and another
  scalar elsewhere (the float \<open>nan\<close> for an empty field, an \<open>int64\<close> or a \<open>float64\<close> for
  a numeric column, a \<open>bool\<close>); \<open>NonStr r\<close> is such a scalar, \<open>r\<close> being what \<open>str()\<close>
  returns for it. None of them has a method \<open>strip\<close>.
\<close>

datatype cell = Str string | NonStr string

abbreviation nan :: cell where
  "nan \<equiv> NonStr ''nan''"

datatype error = AttributeError | ZeroDivisionError

fun str_cell :: "cell \<Rightarrow> string" where
  "str_cell (Str s) = s"
| "str_cell (NonStr r) = r"

fun strip_cell :: "cell \<Rightarrow> error + string" where
  "strip_cell (Str s) = Inr (strip s)"
| "strip_cell (NonStr r) = Inl AttributeError"

type_synonym row = "string \<rightharpoonup> cell"

text \<open>\<open>row.get(key, '')\<close>\<close>

definition row_get :: "row \<Rightarrow> string \<Rightarrow> cell" where
  "row_get row key = (case row key of None \<Rightarrow> Str [] | Some v \<Rightarrow> v)"

section \<open>The outside world\<close>

text \<open>
  What one call of \<open>requests.get\<close> or \<open>requests.post\<close> comes back with: a response
  (its \<open>status_code\<close>, the result of \<open>json()\<close> with \<open>None\<close> for a \<open>ValueError\<close>, its
  \<open>text\<close>), or one of the exceptions the transport tells apart. The server is a stream
  of such answers, one taken by each call; the calls, the sleeps and the updates of the
  two widgets are recorded as events in the order they happen.
\<close>

datatype response =
    Response nat "json option" string
  | Timeout
  | ConnectionError
  | OtherException string

type_synonym feed = "response stream"

type_synonym headers = "(string \<times> string) list"

datatype kwargs = Params "(string \<times> string) list" | Json json

datatype event =
    Request string string headers nat kwargs
  | Sleep rat
  | Status_text string
  | Progress rat
  | Progress_empty
  | Status_empty

fun is_request :: "event \<Rightarrow> bool" where
  "is_request (Request verb url hs t kw) = True"
| "is_request e = False"

definition emit :: "event list \<Rightarrow> 'a \<times> event list \<times> feed \<Rightarrow> 'a \<times> event list \<times> feed" where
  "emit pre res = (case res of (r, evs, w) \<Rightarrow> (r, pre @ evs, w))"

section \<open>Constants\<close>

definition API_BASE_URL :: string where
  "API_BASE_URL = ''https://api.attent.app/v1''"

definition REQUEST_TIMEOUT :: nat where
  "REQUEST_TIMEOUT = 30"

definition MAX_RETRIES :: nat where
  "MAX_RETRIES = 3"

definition RETRY_DELAY :: rat where
  "RETRY_DELAY = 1"

section \<open>AptenAPIStreamlit\<close>

text \<open>The object holds the headers; the two endpoints are built from the base URL.\<close>

definition init :: "string \<Rightarrow> headers" where
  "init api_key = [(''x-api-key'', api_key), (''Content-Type'', ''application/json'')]"

definition lookup_endpoint :: string where
  "lookup_endpoint = API_BASE_URL @ ''/leads/lookup''"

definition switch_profile_endpoint :: "string \<Rightarrow> string" where
  "switch_profile_endpoint leadId = API_BASE_URL @ ''/leads/'' @ leadId @ ''/switchCustomerProfile''"

text \<open>
  The body of \<open>for attempt in range(MAX_RETRIES)\<close> in \<open>_make_request_with_retry\<close>,
  by recursion on the attempts still to run. The result is the returned triple
  \<open>(success, data, error)\<close>, the events of the call, and the answers left.
\<close>

fun attempts :: "headers \<Rightarrow> string \<Rightarrow> string \<Rightarrow> kwargs \<Rightarrow> nat list \<Rightarrow> feed
    \<Rightarrow> (bool \<times> json \<times> string) \<times> event list \<times> feed" where
  "attempts hs method url kw [] w =
     ((False, JNull, ''Failed after '' @ str_nat MAX_RETRIES @ '' attempts''), [], w)"
| "attempts hs method url kw (attempt # rest) w =
     (if upper method \<noteq> ''GET'' \<and> upper method \<noteq> ''POST''
      then ((False, JNull, ''Unsupported HTTP method: '' @ method), [], w)
      else
        let call = Request (upper method) url hs REQUEST_TIMEOUT kw in
        (case shd w of
           Response status_code body text \<Rightarrow>
             if status_code = 200 then
               (case body of
                  Some v \<Rightarrow> ((True, v, []), [call], stl w)
                | None \<Rightarrow> ((False, JNull, ''Invalid JSON response''), [call], stl w))
             else if status_code = 401 then
               ((False, JNull, ''Unauthorized - check your API key''), [call], stl w)
             else if status_code = 404 then
               ((False, JNull, ''Lead not found''), [call], stl w)
             else if status_code = 429 then
               (if attempt < MAX_RETRIES - 1
                then emit [call, Sleep (RETRY_DELAY * 2)] (attempts hs method url kw rest (stl w))
                else ((False, JNull, ''Rate limited''), [call], stl w))
             else
               (if attempt < MAX_RETRIES - 1
                then emit [call, Sleep RETRY_DELAY] (attempts hs method url kw rest (stl w))
                else ((False, JNull, ''HTTP '' @ str_nat status_code @ '': '' @ take 200 text),
                      [call], stl w))
         | Timeout \<Rightarrow>
             (if attempt < MAX_RETRIES - 1
              then emit [call, Sleep RETRY_DELAY] (attempts hs method url kw rest (stl w))
              else ((False, JNull, ''Request timed out''), [call], stl w))
         | ConnectionError \<Rightarrow>
             (if attempt < MAX_RETRIES - 1
              then emit [call, Sleep RETRY_DELAY] (attempts hs method url kw rest (stl w))
              else ((False, JNull, ''Connection error''), [call], stl w))
         | OtherException e \<Rightarrow>
             ((False, JNull, ''Unexpected error: '' @ e), [call], stl w)))"

definition make_request_with_retry :: "headers \<Rightarrow> string \<Rightarrow> string \<Rightarrow> kwargs \<Rightarrow> feed
    \<Rightarrow> (bool \<times> json \<times> string) \<times> event list \<times> feed" where
  "make_request_with_retry hs method url kw w = attempts hs method url kw [0..<MAX_RETRIES] w"

text \<open>\<open>data.get('id', '')\<close> raises \<open>AttributeError\<close> when \<open>data\<close> is not a \<open>dict\<close>.\<close>

definition lookup_lead :: "(json \<Rightarrow> string) \<Rightarrow> headers \<Rightarrow> string \<Rightarrow> feed
    \<Rightarrow> error + ((bool \<times> json \<times> string) \<times> event list \<times> feed)" where
  "lookup_lead repr hs phone w =
     (case make_request_with_retry hs ''GET'' lookup_endpoint (Params [(''phone'', phone)]) w of
        ((success, data, error), evs, w') \<Rightarrow>
          if success \<and> truthy data then
            (case data of
               JObj kvs \<Rightarrow>
                 let lead_id = (case map_of kvs ''id'' of None \<Rightarrow> JStr [] | Some v \<Rightarrow> v) in
                 if truthy lead_id then Inr ((True, lead_id, []), evs, w')
                 else Inr ((False, JNull,
                            ''No lead ID in response. Response: '' @ take 100 (str_json repr data)),
                           evs, w')
             | _ \<Rightarrow> Inl AttributeError)
          else Inr ((False, JNull, error), evs, w'))"

definition payload :: "string \<Rightarrow> json" where
  "payload target_profile = JObj [
     (''profile'', JStr target_profile),
     (''sendMessage'', JBool True),
     (''messageDelayHours'', JInt 0),
     (''messageDelayMins'', JInt 0),
     (''clearMemory'', JBool False)]"

definition switch_profile :: "(json \<Rightarrow> string) \<Rightarrow> headers \<Rightarrow> json \<Rightarrow> string \<Rightarrow> feed
    \<Rightarrow> (bool \<times> string) \<times> event list \<times> feed" where
  "switch_profile repr hs lead_id target_profile w =
     (let url = switch_profile_endpoint (str_json repr lead_id) in
      case make_request_with_retry hs ''POST'' url (Json (payload target_profile)) w of
        ((success, data, error), evs, w') \<Rightarrow>
          if success then ((True, []), evs, w') else ((False, error), evs, w'))"

text \<open>The one HTTP call each of the two operations makes, per attempt.\<close>

definition lookup_call :: "headers \<Rightarrow> string \<Rightarrow> event" where
  "lookup_call hs phone =
     Request ''GET'' lookup_endpoint hs REQUEST_TIMEOUT (Params [(''phone'', phone)])"

definition switch_call :: "(json \<Rightarrow> string) \<Rightarrow> headers \<Rightarrow> json \<Rightarrow> string \<Rightarrow> event" where
  "switch_call repr hs lead_id target_profile =
     Request ''POST'' (switch_profile_endpoint (str_json repr lead_id)) hs REQUEST_TIMEOUT
       (Json (payload target_profile))"

text \<open>\<open>process_lead\<close> reads \<open>lead_data['phone']\<close> and \<open>lead_data['target_profile']\<close>.\<close>

definition process_lead :: "(json \<Rightarrow> string) \<Rightarrow> headers \<Rightarrow> string \<Rightarrow> string \<Rightarrow> feed
    \<Rightarrow> error + ((bool \<times> json \<times> string) \<times> event list \<times> feed)" where
  "process_lead repr hs phone target_profile w =
     (case lookup_lead repr hs phone w of
        Inl e \<Rightarrow> Inl e
      | Inr ((success, lead_id, error), evs, w') \<Rightarrow>
          if \<not> success then Inr ((False, JStr [], error), evs, w')
          else
            (case switch_profile repr hs lead_id target_profile w' of
               ((success', error'), evs', w'') \<Rightarrow>
                 if success' then Inr ((True, lead_id, []), evs @ evs', w'')
                 else Inr ((False, lead_id, error'), evs @ evs', w'')))"

section \<open>process\_csv\<close>

record outcome =
  Row_Number :: int
  First_Name :: cell
  Last_Name :: cell
  Phone :: cell
  Target_Profile :: cell
  Lead_ID :: json
  Status :: string
  Error_Message :: string

record acc =
  results :: "outcome list"
  successful_count :: nat
  failed_count :: nat

text \<open>
  The body of \<open>for idx, row in df.iterrows()\<close>, in two parts: \<open>idx\<close> is the position
  of the row in the frame (\<open>pd.read_csv\<close> numbers the rows from 0) and \<open>total_rows\<close> is
  \<open>len(df)\<close>. \<open>run_lead\<close> is the part after the two checks, from \<open>lead_data = {...}\<close>
  to the pause; the fraction \<open>(idx + 1) / total_rows\<close> is kept exact, and dividing by
  zero raises.
\<close>

definition lead_name :: "row \<Rightarrow> string" where
  "lead_name row =
     strip (str_cell (row_get row ''First Name'') @ '' '' @ str_cell (row_get row ''Last Name''))"

definition processing :: "nat \<Rightarrow> nat \<Rightarrow> string \<Rightarrow> event" where
  "processing idx total_rows name =
     Status_text (''Processing '' @ str_nat (idx + 1) @ ''/'' @ str_nat total_rows @ '': '' @ name)"

definition pause :: "nat \<Rightarrow> nat \<Rightarrow> event list" where
  "pause idx total_rows = (if int idx < int total_rows - 1 then [Sleep (1 / 10)] else [])"

definition run_lead :: "(json \<Rightarrow> string) \<Rightarrow> headers \<Rightarrow> nat \<Rightarrow> nat \<Rightarrow> row \<Rightarrow> string \<Rightarrow> string
    \<Rightarrow> acc \<Rightarrow> feed \<Rightarrow> error + (acc \<times> event list \<times> feed)" where
  "run_lead repr api total_rows idx row phone target_profile a w =
     (let first_name = row_get row ''First Name'';
          last_name = row_get row ''Last Name'';
          says = processing idx total_rows (lead_name row)
      in
      case process_lead repr api phone target_profile w of
        Inl e \<Rightarrow> Inl e
      | Inr ((success, lead_id, error_message), evs, w') \<Rightarrow>
          let a' = (if success then a\<lparr>successful_count := successful_count a + 1\<rparr>
                    else a\<lparr>failed_count := failed_count a + 1\<rparr>);
              status = (if success then ''SUCCESS'' else ''FAILED'');
              a'' = a'\<lparr>results := results a' @ [\<lparr>
                Row_Number = int idx + 2,
                First_Name = first_name,
                Last_Name = last_name,
                Phone = Str phone,
                Target_Profile = Str target_profile,
                Lead_ID = lead_id,
                Status = status,
                Error_Message = error_message\<rparr>]\<rparr>
          in
          if total_rows = 0 then Inl ZeroDivisionError
          else
            Inr (a'', says # evs @ [Progress (of_nat (idx + 1) / of_nat total_rows)]
                      @ pause idx total_rows,
                 w'))"

definition loop_body :: "(json \<Rightarrow> string) \<Rightarrow> headers \<Rightarrow> nat \<Rightarrow> nat \<Rightarrow> row \<Rightarrow> acc \<Rightarrow> feed
    \<Rightarrow> error + (acc \<times> event list \<times> feed)" where
  "loop_body repr api total_rows idx row a w =
     (let phone = filter isdigit (str_cell (row_get row ''Mobile Phone'')) in
      if phone = [] then
        Inr (a\<lparr>failed_count := failed_count a + 1,
               results := results a @ [\<lparr>
                 Row_Number = int idx + 2,
                 First_Name = row_get row ''First Name'',
                 Last_Name = row_get row ''Last Name'',
                 Phone = row_get row ''Mobile Phone'',
                 Target_Profile = row_get row ''Customer Profile'',
                 Lead_ID = JStr [],
                 Status = ''FAILED'',
                 Error_Message = ''Invalid phone number''\<rparr>]\<rparr>, [], w)
      else
        (case strip_cell (row_get row ''Customer Profile'') of
           Inl e \<Rightarrow> Inl e
         | Inr primary \<Rightarrow>
        (case (if primary = [] then strip_cell (row_get row ''Customer Profile - MOVE'')
               else Inr primary) of
           Inl e \<Rightarrow> Inl e
         | Inr target_profile \<Rightarrow>
        if target_profile = [] then
          Inr (a\<lparr>failed_count := failed_count a + 1,
                 results := results a @ [\<lparr>
                   Row_Number = int idx + 2,
                   First_Name = row_get row ''First Name'',
                   Last_Name = row_get row ''Last Name'',
                   Phone = Str phone,
                   Target_Profile = Str [],
                   Lead_ID = JStr [],
                   Status = ''FAILED'',
                   Error_Message = ''No target profile specified''\<rparr>]\<rparr>, [], w)
        else run_lead repr api total_rows idx row phone target_profile a w)))"

text \<open>The loop over the rows, each with its index; an exception ends it.\<close>

fun loop :: "(json \<Rightarrow> string) \<Rightarrow> headers \<Rightarrow> nat \<Rightarrow> (nat \<times> row) list \<Rightarrow> acc \<Rightarrow> feed
    \<Rightarrow> error + (acc \<times> event list \<times> feed)" where
  "loop repr api total_rows [] a w = Inr (a, [], w)"
| "loop repr api total_rows ((idx, row) # rest) a w =
     (case loop_body repr api total_rows idx row a w of
        Inl e \<Rightarrow> Inl e
      | Inr (a', evs, w') \<Rightarrow>
          (case loop repr api total_rows rest a' w' of
             Inl e \<Rightarrow> Inl e
           | Inr (a'', evs', w'') \<Rightarrow> Inr (a'', evs @ evs', w'')))"

text \<open>
  \<open>process_csv(df, api_key)\<close>: the frame is the list of its rows. It returns
  \<open>(results, successful_count, failed_count)\<close>. The two widgets are created before
  the loop (\<open>st.progress(0)\<close>, \<open>st.empty()\<close>) and emptied after it.
\<close>

definition process_csv :: "(json \<Rightarrow> string) \<Rightarrow> row list \<Rightarrow> string \<Rightarrow> feed
    \<Rightarrow> error + ((outcome list \<times> nat \<times> nat) \<times> event list \<times> feed)" where
  "process_csv repr df api_key w =
     (let api = init api_key;
          total_rows = length df;
          a = \<lparr>results = [], successful_count = 0, failed_count = 0\<rparr>
      in
      case loop repr api total_rows (zip [0..<total_rows] df) a w of
        Inl e \<Rightarrow> Inl e
      | Inr (a', evs, w') \<Rightarrow>
          Inr ((results a', successful_count a', failed_count a'),
               [Progress 0, Status_empty] @ evs @ [Progress_empty, Status_empty], w'))"

section \<open>The two checks on their own\<close>

text \<open>
  The checks the loop body makes before it calls the API, read off the same lines:
  a rejected row gives the \<open>Phone\<close>, \<open>Target Profile\<close> and \<open>Error Message\<close> entries
  of its outcome, an accepted one the cleaned phone and the target profile.
\<close>

datatype verdict = Rejected cell cell string | Accepted string string

definition validate :: "row \<Rightarrow> error + verdict" where
  "validate row =
     (let phone = filter isdigit (str_cell (row_get row ''Mobile Phone'')) in
      if phone = [] then
        Inr (Rejected (row_get row ''Mobile Phone'') (row_get row ''Customer Profile'')
               ''Invalid phone number'')
      else
        (case strip_cell (row_get row ''Customer Profile'') of
           Inl e \<Rightarrow> Inl e
         | Inr primary \<Rightarrow>
        (case (if primary = [] then strip_cell (row_get row ''Customer Profile - MOVE'')
               else Inr primary) of
           Inl e \<Rightarrow> Inl e
         | Inr target_profile \<Rightarrow>
        if target_profile = [] then Inr (Rejected (Str phone) (Str []) ''No target profile specified'')
        else Inr (Accepted phone target_profile))))"

text \<open>The outcome appended for a rejected row, and the accumulator after it.\<close>

definition reject :: "nat \<Rightarrow> row \<Rightarrow> cell \<Rightarrow> cell \<Rightarrow> string \<Rightarrow> acc \<Rightarrow> acc" where
  "reject idx row p t msg a =
     a\<lparr>failed_count := failed_count a + 1,
       results := results a @ [\<lparr>
         Row_Number = int idx + 2,
         First_Name = row_get row ''First Name'',
         Last_Name = row_get row ''Last Name'',
         Phone = p,
         Target_Profile = t,
         Lead_ID = JStr [],
         Status = ''FAILED'',
         Error_Message = msg\<rparr>]\<rparr>"

text \<open>The events of a run; none are kept of a run that raised.\<close>

definition events_of :: "error + ('a \<times> event list \<times> feed) \<Rightarrow> event list" where
  "events_of res = (case res of Inl e \<Rightarrow> [] | Inr (x, evs, w) \<Rightarrow> evs)"

section \<open>Example inputs\<close>

text \<open>
  Python's rendering of the values the examples below pass to \<open>str()\<close>; other values are
  not rendered.
\<close>

fun repr_basic :: "json \<Rightarrow> string" where
  "repr_basic JNull = ''None''"
| "repr_basic (JBool b) = (if b then ''True'' else ''False'')"
| "repr_basic (JInt i) = (if i < 0 then ''-'' @ str_nat (nat (- i)) else str_nat (nat i))"
| "repr_basic (JArr xs) = (if xs = [] then ''[]'' else ''...'')"
| "repr_basic (JObj kvs) =
     (if kvs = [] then ''{}''
      else if kvs = [(''id'', JNull)] then ''{'id': None}''
      else ''...'')"
| "repr_basic v = ''...''"

definition acc0 :: acc where
  "acc0 = \<lparr>results = [], successful_count = 0, failed_count = 0\<rparr>"

definition row_dashes :: row where
  "row_dashes = [''First Name'' \<mapsto> Str ''Ann'', ''Last Name'' \<mapsto> Str ''Lee'',
                 ''Mobile Phone'' \<mapsto> Str ''---'', ''Customer Profile'' \<mapsto> Str ''VIP'']"

definition row_no_profile :: row where
  "row_no_profile = [''First Name'' \<mapsto> Str ''Ann'', ''Last Name'' \<mapsto> Str ''Lee'',
                     ''Mobile Phone'' \<mapsto> Str ''555-0100'', ''Customer Profile'' \<mapsto> Str '' '']"

definition row_vip :: row where
  "row_vip = [''First Name'' \<mapsto> Str ''Ann'', ''Last Name'' \<mapsto> Str ''Lee'',
              ''Mobile Phone'' \<mapsto> Str ''(555) 123-4567'', ''Customer Profile'' \<mapsto> Str ''VIP'']"

text \<open>
  The row \<open>pd.read_csv\<close> makes of the line \<open>Ann,Lee,(555) 123-4567,,VIP\<close> under the
  header \<open>First Name,Last Name,Mobile Phone,Customer Profile,Customer Profile - MOVE\<close>:
  the empty field is the float \<open>nan\<close>.
\<close>

definition row_nan_profile :: row where
  "row_nan_profile = [''First Name'' \<mapsto> Str ''Ann'', ''Last Name'' \<mapsto> Str ''Lee'',
                      ''Mobile Phone'' \<mapsto> Str ''(555) 123-4567'', ''Customer Profile'' \<mapsto> nan,
                      ''Customer Profile - MOVE'' \<mapsto> Str ''VIP'']"

text \<open>
  The row \<open>pd.read_csv\<close> makes of the line \<open>Ann,Lee,555-0100,,\<close> under the same
  header: both profile fields are empty, so both cells are the float \<open>nan\<close>.
\<close>

definition row_empty_profiles :: row where
  "row_empty_profiles = [''First Name'' \<mapsto> Str ''Ann'', ''Last Name'' \<mapsto> Str ''Lee'',
                         ''Mobile Phone'' \<mapsto> Str ''555-0100'', ''Customer Profile'' \<mapsto> nan,
                         ''Customer Profile - MOVE'' \<mapsto> nan]"

section \<open>The retrying transport\<close>

lemma range_MAX_RETRIES: "[0..<MAX_RETRIES] = [0, 1, 2]"
  by (simp add: MAX_RETRIES_def upt_rec)

lemma upper_GET: "upper ''GET'' = ''GET''"
  by (simp add: upper_def upper_char_def)

lemma upper_POST: "upper ''POST'' = ''POST''"
  by (simp add: upper_def upper_char_def)

lemma request_GET_404:
  "shd w = Response 404 b t \<Longrightarrow>
   make_request_with_retry hs ''GET'' url kw w
     = ((False, JNull, ''Lead not found''), [Request ''GET'' url hs REQUEST_TIMEOUT kw], stl w)"
  by (simp add: make_request_with_retry_def range_MAX_RETRIES upper_GET)

lemma request_GET_200:
  "shd w = Response 200 (Some v) t \<Longrightarrow>
   make_request_with_retry hs ''GET'' url kw w
     = ((True, v, []), [Request ''GET'' url hs REQUEST_TIMEOUT kw], stl w)"
  by (simp add: make_request_with_retry_def range_MAX_RETRIES upper_GET)

lemma request_POST_200:
  "shd w = Response 200 (Some v) t \<Longrightarrow>
   make_request_with_retry hs ''POST'' url kw w
     = ((True, v, []), [Request ''POST'' url hs REQUEST_TIMEOUT kw], stl w)"
  by (simp add: make_request_with_retry_def range_MAX_RETRIES upper_POST)

lemma request_POST_429:
  assumes "\<forall>i<MAX_RETRIES. \<exists>b t. w !! i = Response 429 b t"
  shows "make_request_with_retry hs ''POST'' url kw w
     = ((False, JNull, ''Rate limited''),
        [Request ''POST'' url hs REQUEST_TIMEOUT kw, Sleep (RETRY_DELAY * 2),
         Request ''POST'' url hs REQUEST_TIMEOUT kw, Sleep (RETRY_DELAY * 2),
         Request ''POST'' url hs REQUEST_TIMEOUT kw], sdrop MAX_RETRIES w)"
proof -
  have "\<exists>b t. w !! 0 = Response 429 b t" "\<exists>b t. w !! 1 = Response 429 b t"
    "\<exists>b t. w !! 2 = Response 429 b t"
    using assms [rule_format, of 0] assms [rule_format, of 1] assms [rule_format, of 2]
    by (simp_all add: MAX_RETRIES_def)
  then obtain b0 t0 b1 t1 b2 t2 where
    r: "shd w = Response 429 b0 t0" "shd (stl w) = Response 429 b1 t1"
       "shd (stl (stl w)) = Response 429 b2 t2"
    by (auto simp: numeral_2_eq_2)
  have d: "sdrop MAX_RETRIES w = stl (stl (stl w))"
    by (simp add: MAX_RETRIES_def numeral_3_eq_3)
  show ?thesis
    unfolding d make_request_with_retry_def range_MAX_RETRIES
    by (simp add: upper_POST r emit_def MAX_RETRIES_def)
qed

text \<open>No message of the transport begins like the diagnostic of \<open>lookup_lead\<close>.\<close>

lemma attempts_message:
  "attempts hs method url kw as w = ((ok, d, msg), evs, w') \<Longrightarrow> msg = [] \<or> hd msg \<noteq> CHR ''N''"
proof (induction as arbitrary: w evs)
  case Nil
  then show ?case by auto
next
  case (Cons attempt rest)
  show ?case
  proof (cases "upper method \<noteq> ''GET'' \<and> upper method \<noteq> ''POST''")
    case True
    with Cons.prems show ?thesis by auto
  next
    case False
    with Cons.prems Cons.IH show ?thesis
      by (auto simp: emit_def Let_def split: response.splits if_splits option.splits prod.splits)
  qed
qed

text \<open>A successful call comes without a message.\<close>

lemma attempts_success:
  "attempts hs method url kw as w = ((True, d, msg), evs, w') \<Longrightarrow> msg = []"
proof (induction as arbitrary: w evs)
  case Nil
  then show ?case by auto
next
  case (Cons attempt rest)
  show ?case
  proof (cases "upper method \<noteq> ''GET'' \<and> upper method \<noteq> ''POST''")
    case True
    with Cons.prems show ?thesis by auto
  next
    case False
    with Cons.prems Cons.IH show ?thesis
      by (auto simp: emit_def Let_def split: response.splits if_splits option.splits prod.splits)
  qed
qed

section \<open>The two-step workflow\<close>

lemma lookup_lead_404:
  "shd w = Response 404 b t \<Longrightarrow>
   lookup_lead repr hs phone w
     = Inr ((False, JNull, ''Lead not found''), [lookup_call hs phone], stl w)"
  by (simp add: lookup_lead_def request_GET_404 lookup_call_def)

lemma lookup_lead_200:
  "shd w = Response 200 (Some body) t \<Longrightarrow>
   lookup_lead repr hs phone w =
     (if truthy body then
        (case body of
           JObj kvs \<Rightarrow>
             (case map_of kvs ''id'' of
                None \<Rightarrow> Inr ((False, JNull,
                  ''No lead ID in response. Response: '' @ take 100 (str_json repr body)),
                  [lookup_call hs phone], stl w)
              | Some v \<Rightarrow>
                  if truthy v then Inr ((True, v, []), [lookup_call hs phone], stl w)
                  else Inr ((False, JNull,
                    ''No lead ID in response. Response: '' @ take 100 (str_json repr body)),
                    [lookup_call hs phone], stl w))
         | _ \<Rightarrow> Inl AttributeError)
      else Inr ((False, JNull, []), [lookup_call hs phone], stl w))"
  by (simp add: lookup_lead_def request_GET_200 lookup_call_def split: json.splits option.splits)

lemma switch_profile_200:
  "shd w = Response 200 (Some v) t \<Longrightarrow>
   switch_profile repr hs lead_id target_profile w
     = ((True, []), [switch_call repr hs lead_id target_profile], stl w)"
  by (simp add: switch_profile_def request_POST_200 switch_call_def)

lemma switch_profile_429:
  "\<forall>i<MAX_RETRIES. \<exists>b t. w !! i = Response 429 b t \<Longrightarrow>
   switch_profile repr hs lead_id target_profile w
     = ((False, ''Rate limited''),
        [switch_call repr hs lead_id target_profile, Sleep (RETRY_DELAY * 2),
         switch_call repr hs lead_id target_profile, Sleep (RETRY_DELAY * 2),
         switch_call repr hs lead_id target_profile], sdrop MAX_RETRIES w)"
  by (simp add: switch_profile_def request_POST_429 Let_def switch_call_def)

lemma process_lead_lookup_failed:
  "lookup_lead repr hs phone w = Inr ((False, d, msg), evs, w') \<Longrightarrow>
   process_lead repr hs phone target_profile w = Inr ((False, JStr [], msg), evs, w')"
  by (simp add: process_lead_def)

lemma process_lead_lookup_ok:
  "lookup_lead repr hs phone w = Inr ((True, lead_id, msg), evs, w') \<Longrightarrow>
   switch_profile repr hs lead_id target_profile w' = ((ok, msg'), evs', w'') \<Longrightarrow>
   process_lead repr hs phone target_profile w
     = Inr ((ok, lead_id, if ok then [] else msg'), evs @ evs', w'')"
  by (simp add: process_lead_def)

section \<open>The loop body\<close>

lemma loop_body_rejected:
  "validate row = Inr (Rejected p t msg) \<Longrightarrow>
   loop_body repr api total_rows idx row a w = Inr (reject idx row p t msg a, [], w)"
  by (auto simp: validate_def loop_body_def reject_def Let_def split: if_splits sum.splits)

lemma loop_body_accepted:
  "validate row = Inr (Accepted phone target_profile) \<Longrightarrow>
   loop_body repr api total_rows idx row a w
     = run_lead repr api total_rows idx row phone target_profile a w"
  by (auto simp: validate_def loop_body_def Let_def split: if_splits sum.splits)

lemma loop_body_raises:
  "validate row = Inl e \<Longrightarrow> loop_body repr api total_rows idx row a w = Inl e"
  by (auto simp: validate_def loop_body_def Let_def split: if_splits sum.splits)

lemma validate_no_digits:
  "filter isdigit (str_cell (row_get row ''Mobile Phone'')) = [] \<Longrightarrow>
   validate row = Inr (Rejected (row_get row ''Mobile Phone'') (row_get row ''Customer Profile'')
                         ''Invalid phone number'')"
  by (simp add: validate_def)

lemma validate_no_profile:
  "filter isdigit (str_cell (row_get row ''Mobile Phone'')) \<noteq> [] \<Longrightarrow>
   strip_cell (row_get row ''Customer Profile'') = Inr [] \<Longrightarrow>
   strip_cell (row_get row ''Customer Profile - MOVE'') = Inr [] \<Longrightarrow>
   validate row = Inr (Rejected (Str (filter isdigit (str_cell (row_get row ''Mobile Phone''))))
                         (Str []) ''No target profile specified'')"
  by (simp add: validate_def)

lemma run_lead_returns:
  assumes "process_lead repr api phone target_profile w = Inr ((success, lead_id, msg), evs, w')"
    and "total_rows \<noteq> 0"
  shows "run_lead repr api total_rows idx row phone target_profile a w
     = Inr ((if success then a\<lparr>successful_count := successful_count a + 1\<rparr>
             else a\<lparr>failed_count := failed_count a + 1\<rparr>)
            \<lparr>results := results a @ [\<lparr>
               Row_Number = int idx + 2,
               First_Name = row_get row ''First Name'',
               Last_Name = row_get row ''Last Name'',
               Phone = Str phone,
               Target_Profile = Str target_profile,
               Lead_ID = lead_id,
               Status = (if success then ''SUCCESS'' else ''FAILED''),
               Error_Message = msg\<rparr>]\<rparr>,
            processing idx total_rows (lead_name row) # evs
              @ [Progress (of_nat (idx + 1) / of_nat total_rows)] @ pause idx total_rows,
            w')"
  using assms by (simp add: run_lead_def Let_def)

lemma run_lead_step:
  assumes "run_lead repr api total_rows idx row phone tp a w = Inr (a', evs, w')"
  shows "\<exists>out. results a' = results a @ [out] \<and> Row_Number out = int idx + 2
           \<and> successful_count a' + failed_count a' = successful_count a + failed_count a + 1"
  using assms
  by (auto simp: run_lead_def Let_def split: sum.splits prod.splits if_splits)

lemma loop_body_step:
  assumes "loop_body repr api total_rows idx row a w = Inr (a', evs, w')"
  shows "\<exists>out. results a' = results a @ [out] \<and> Row_Number out = int idx + 2
           \<and> successful_count a' + failed_count a' = successful_count a + failed_count a + 1"
proof (cases "validate row")
  case (Inl e)
  with assms show ?thesis by (simp add: loop_body_raises)
next
  case (Inr v)
  show ?thesis
  proof (cases v)
    case (Rejected p t msg)
    with Inr assms show ?thesis by (auto simp: loop_body_rejected reject_def)
  next
    case (Accepted phone tp)
    with Inr assms have "run_lead repr api total_rows idx row phone tp a w = Inr (a', evs, w')"
      by (simp add: loop_body_accepted)
    then show ?thesis by (rule run_lead_step)
  qed
qed

section \<open>The whole batch\<close>

lemma loop_invariant:
  "loop repr api total_rows xs a w = Inr (a', evs, w') \<Longrightarrow>
     map Row_Number (results a') = map Row_Number (results a) @ map (\<lambda>p. int (fst p) + 2) xs
   \<and> successful_count a' + failed_count a' = successful_count a + failed_count a + length xs"
proof (induction xs arbitrary: a w a' evs w')
  case Nil
  then show ?case by simp
next
  case (Cons x xs)
  obtain idx row where x: "x = (idx, row)" by (cases x)
  from Cons.prems obtain a1 evs1 w1 a2 evs2 w2 where
    b: "loop_body repr api total_rows idx row a w = Inr (a1, evs1, w1)" and
    l: "loop repr api total_rows xs a1 w1 = Inr (a2, evs2, w2)" and
    e: "a' = a2"
    by (auto simp: x split: sum.splits prod.splits)
  from loop_body_step [OF b] obtain out where
    o: "results a1 = results a @ [out]" "Row_Number out = int idx + 2"
       "successful_count a1 + failed_count a1 = successful_count a + failed_count a + 1"
    by blast
  from Cons.IH [OF l] o show ?case by (simp add: e x)
qed

text \<open>
  Whenever \<open>process_csv\<close> returns, it returns one outcome per row, numbered in the order
  of the rows, and the two counts add up to the number of rows.
\<close>

lemma process_csv_returns:
  assumes "process_csv repr df api_key w = Inr ((res, s, f), evs, w')"
  shows "map Row_Number res = map (\<lambda>i. int i + 2) [0..<length df] \<and> s + f = length df"
proof -
  from assms obtain a' evs0 where
    l: "loop repr (init api_key) (length df) (zip [0..<length df] df)
          \<lparr>results = [], successful_count = 0, failed_count = 0\<rparr> w = Inr (a', evs0, w')"
    and r: "res = results a'" "s = successful_count a'" "f = failed_count a'"
    by (auto simp: process_csv_def Let_def split: sum.splits prod.splits)
  have "map (\<lambda>p. int (fst p) + 2) (zip [0..<length df] df) = map (\<lambda>i. int i + 2) [0..<length df]"
    by (rule nth_equalityI) simp_all
  with loop_invariant [OF l] r show ?thesis by simp
qed

section \<open>The example inputs, evaluated\<close>

lemma validate_row_dashes:
  "validate row_dashes = Inr (Rejected (Str ''---'') (Str ''VIP'') ''Invalid phone number'')"
  by (simp add: validate_def row_dashes_def row_get_def isdigit_def)

lemma validate_row_no_profile:
  "validate row_no_profile = Inr (Rejected (Str ''5550100'') (Str []) ''No target profile specified'')"
  by (simp add: validate_def row_no_profile_def row_get_def isdigit_def strip_def isspace_def)

lemma validate_row_vip: "validate row_vip = Inr (Accepted ''5551234567'' ''VIP'')"
  by (simp add: validate_def row_vip_def row_get_def isdigit_def strip_def isspace_def)

lemma validate_row_nan_profile: "validate row_nan_profile = Inl AttributeError"
  by (simp add: validate_def row_nan_profile_def row_get_def isdigit_def)

lemma validate_row_empty_profiles: "validate row_empty_profiles = Inl AttributeError"
  by (simp add: validate_def row_empty_profiles_def row_get_def isdigit_def)

lemma phone_row_empty_profiles:
  "filter isdigit (str_cell (row_get row_empty_profiles ''Mobile Phone'')) = ''5550100''"
  by (simp add: row_empty_profiles_def row_get_def isdigit_def)

lemma names_row_dashes:
  "row_get row_dashes ''First Name'' = Str ''Ann''" "row_get row_dashes ''Last Name'' = Str ''Lee''"
  by (simp_all add: row_dashes_def row_get_def)

lemma names_row_vip:
  "row_get row_vip ''First Name'' = Str ''Ann''" "row_get row_vip ''Last Name'' = Str ''Lee''"
  by (simp_all add: row_vip_def row_get_def)

lemma lead_name_row_vip: "lead_name row_vip = ''Ann Lee''"
  by (simp add: lead_name_def names_row_vip strip_def isspace_def)

lemma str_nat_digit: "n < 10 \<Longrightarrow> str_nat n = [''0123456789'' ! n]"
  by (simp add: str_nat.simps)

lemma str_nat_small:
  "str_nat (Suc 0) = ''1''" "str_nat 1 = ''1''" "str_nat 2 = ''2''" "str_nat 3 = ''3''"
  by (simp_all add: str_nat.simps)

section \<open>Claims\<close>

text \<open>
  C1. \<open>process_csv\<close> is to return one outcome for every row of the frame. It does not
  on the one-row frame \<open>[row_nan_profile]\<close>, which \<open>pd.read_csv\<close> makes of a line whose
  \<open>Customer Profile\<close> field is empty: the phone has digits, so the row passes the first
  check, and \<open>row.get('Customer Profile', '').strip()\<close> is called on the float \<open>nan\<close>.
  The \<open>AttributeError\<close> leaves \<open>process_csv\<close>, whatever the server would have answered,
  and no outcome is returned for the row.
\<close>

theorem nan_profile_aborts_batch:
  "process_csv repr [row_nan_profile] api_key w = Inl AttributeError"
  by (simp add: process_csv_def loop_body_raises [OF validate_row_nan_profile])

text \<open>
  C2. Whenever \<open>process_csv\<close> completes, the successful count and the failed count it
  returns add up to the number of rows of the frame.
\<close>

theorem counts_add_up:
  assumes "process_csv repr df api_key w = Inr ((res, successful, failed), evs, w')"
  shows "successful + failed = length df"
  using process_csv_returns [OF assms] by simp

theorem counts_add_up_witness:
  "process_csv repr_basic [row_vip, row_dashes] ''key''
       (Response 200 (Some (JObj [(''id'', JStr ''abc123'')])) []
          ## Response 200 (Some (JObj [])) ''{}'' ## sconst Timeout)
     = Inr (([\<lparr>Row_Number = 2, First_Name = Str ''Ann'', Last_Name = Str ''Lee'',
                Phone = Str ''5551234567'', Target_Profile = Str ''VIP'',
                Lead_ID = JStr ''abc123'', Status = ''SUCCESS'', Error_Message = []\<rparr>,
              \<lparr>Row_Number = 3, First_Name = Str ''Ann'', Last_Name = Str ''Lee'',
                Phone = Str ''---'', Target_Profile = Str ''VIP'', Lead_ID = JStr [],
                Status = ''FAILED'', Error_Message = ''Invalid phone number''\<rparr>], 1, 1),
            [Progress 0, Status_empty, Status_text ''Processing 1/2: Ann Lee'',
             lookup_call (init ''key'') ''5551234567'',
             switch_call repr_basic (init ''key'') (JStr ''abc123'') ''VIP'',
             Progress (1 / 2), Sleep (1 / 10), Progress_empty, Status_empty],
            sconst Timeout)
   \<and> (1::nat) + 1 = length [row_vip, row_dashes]"
proof -
  have l: "lookup_lead repr_basic (init ''key'') ''5551234567''
       (Response 200 (Some (JObj [(''id'', JStr ''abc123'')])) []
          ## Response 200 (Some (JObj [])) ''{}'' ## sconst Timeout)
     = Inr ((True, JStr ''abc123'', []), [lookup_call (init ''key'') ''5551234567''],
            Response 200 (Some (JObj [])) ''{}'' ## sconst Timeout)"
    by (simp add: lookup_lead_200)
  have s: "switch_profile repr_basic (init ''key'') (JStr ''abc123'') ''VIP''
       (Response 200 (Some (JObj [])) ''{}'' ## sconst Timeout)
     = ((True, []), [switch_call repr_basic (init ''key'') (JStr ''abc123'') ''VIP''],
        sconst Timeout)"
    using switch_profile_200 [of "Response 200 (Some (JObj [])) ''{}'' ## sconst Timeout"
        "JObj []" "''{}''"]
    by simp
  have t: "(2::nat) \<noteq> 0" by simp
  note b = run_lead_returns [OF process_lead_lookup_ok [OF l s] t, where idx = 0
      and row = row_vip
      and a = "\<lparr>results = [], successful_count = 0, failed_count = 0\<rparr>"]
  have z: "zip [0..<2] [row_vip, row_dashes] = [(0, row_vip), (1, row_dashes)]"
    by (simp add: upt_rec)
  have n: "length [row_vip, row_dashes] = 2" by simp
  have lp: "loop repr_basic (init ''key'') 2 [(0, row_vip), (1, row_dashes)]
       \<lparr>results = [], successful_count = 0, failed_count = 0\<rparr>
       (Response 200 (Some (JObj [(''id'', JStr ''abc123'')])) []
          ## Response 200 (Some (JObj [])) ''{}'' ## sconst Timeout)
     = Inr (\<lparr>results = [\<lparr>Row_Number = 2, First_Name = Str ''Ann'', Last_Name = Str ''Lee'',
                Phone = Str ''5551234567'', Target_Profile = Str ''VIP'',
                Lead_ID = JStr ''abc123'', Status = ''SUCCESS'', Error_Message = []\<rparr>,
              \<lparr>Row_Number = 3, First_Name = Str ''Ann'', Last_Name = Str ''Lee'',
                Phone = Str ''---'', Target_Profile = Str ''VIP'', Lead_ID = JStr [],
                Status = ''FAILED'', Error_Message = ''Invalid phone number''\<rparr>],
              successful_count = 1, failed_count = 1\<rparr>,
            [Status_text ''Processing 1/2: Ann Lee'',
             lookup_call (init ''key'') ''5551234567'',
             switch_call repr_basic (init ''key'') (JStr ''abc123'') ''VIP'',
             Progress (1 / 2), Sleep (1 / 10)],
            sconst Timeout)"
    using b
    by (simp add: loop_body_accepted [OF validate_row_vip]
        loop_body_rejected [OF validate_row_dashes] reject_def names_row_dashes names_row_vip
        lead_name_row_vip processing_def pause_def str_nat_digit)
  have r: "process_csv repr_basic [row_vip, row_dashes] ''key''
       (Response 200 (Some (JObj [(''id'', JStr ''abc123'')])) []
          ## Response 200 (Some (JObj [])) ''{}'' ## sconst Timeout)
     = Inr (([\<lparr>Row_Number = 2, First_Name = Str ''Ann'', Last_Name = Str ''Lee'',
                Phone = Str ''5551234567'', Target_Profile = Str ''VIP'',
                Lead_ID = JStr ''abc123'', Status = ''SUCCESS'', Error_Message = []\<rparr>,
              \<lparr>Row_Number = 3, First_Name = Str ''Ann'', Last_Name = Str ''Lee'',
                Phone = Str ''---'', Target_Profile = Str ''VIP'', Lead_ID = JStr [],
                Status = ''FAILED'', Error_Message = ''Invalid phone number''\<rparr>], 1, 1),
            [Progress 0, Status_empty, Status_text ''Processing 1/2: Ann Lee'',
             lookup_call (init ''key'') ''5551234567'',
             switch_call repr_basic (init ''key'') (JStr ''abc123'') ''VIP'',
             Progress (1 / 2), Sleep (1 / 10), Progress_empty, Status_empty],
            sconst Timeout)"
    unfolding process_csv_def Let_def z n lp by simp
  from counts_add_up [OF r] r show ?thesis by simp
qed

text \<open>
  C3. A row whose \<open>Mobile Phone\<close> entry has no digit gets the outcome \<open>FAILED\<close> with the
  message \<open>Invalid phone number\<close> and an empty \<open>Lead ID\<close>; the row makes no HTTP call:
  its list of events is empty and no answer of the server is taken.
\<close>

theorem no_digits_row_fails:
  assumes "filter isdigit (str_cell (row_get row ''Mobile Phone'')) = []"
  shows "loop_body repr api total_rows idx row a w
     = Inr (a\<lparr>failed_count := failed_count a + 1,
              results := results a @ [\<lparr>
                Row_Number = int idx + 2,
                First_Name = row_get row ''First Name'',
                Last_Name = row_get row ''Last Name'',
                Phone = row_get row ''Mobile Phone'',
                Target_Profile = row_get row ''Customer Profile'',
                Lead_ID = JStr [],
                Status = ''FAILED'',
                Error_Message = ''Invalid phone number''\<rparr>]\<rparr>, [], w)"
  using loop_body_rejected [OF validate_no_digits [OF assms]] by (simp add: reject_def)

theorem no_digits_row_fails_witness:
  "filter isdigit (str_cell (row_get row_dashes ''Mobile Phone'')) = []
   \<and> loop_body repr_basic (init ''key'') 2 0 row_dashes acc0 (sconst Timeout)
     = Inr (\<lparr>results = [\<lparr>Row_Number = 2, First_Name = Str ''Ann'', Last_Name = Str ''Lee'',
                Phone = Str ''---'', Target_Profile = Str ''VIP'', Lead_ID = JStr [],
                Status = ''FAILED'', Error_Message = ''Invalid phone number''\<rparr>],
              successful_count = 0, failed_count = 1\<rparr>, [], sconst Timeout)"
proof -
  have h: "filter isdigit (str_cell (row_get row_dashes ''Mobile Phone'')) = []"
    by (simp add: row_dashes_def row_get_def isdigit_def)
  from no_digits_row_fails [OF h, where repr = repr_basic and api = "init ''key''"
      and total_rows = 2 and idx = 0 and a = acc0 and w = "sconst Timeout"] h
  show ?thesis
    by (simp add: acc0_def row_dashes_def row_get_def)
qed

text \<open>
  When each of the two profile entries is a \<open>str\<close> that trims to nothing, or is
  absent from the row, the row is rejected without any HTTP call. The phone is checked
  first and only the first failing check is reported: with no digit in the phone the
  message is \<open>Invalid phone number\<close>, otherwise it is \<open>No target profile specified\<close>.
\<close>

lemma loop_body_blank_profiles:
  assumes "strip_cell (row_get row ''Customer Profile'') = Inr []"
    and "strip_cell (row_get row ''Customer Profile - MOVE'') = Inr []"
  shows "loop_body repr api total_rows idx row a w
     = (if filter isdigit (str_cell (row_get row ''Mobile Phone'')) = [] then
          Inr (a\<lparr>failed_count := failed_count a + 1,
                 results := results a @ [\<lparr>
                   Row_Number = int idx + 2,
                   First_Name = row_get row ''First Name'',
                   Last_Name = row_get row ''Last Name'',
                   Phone = row_get row ''Mobile Phone'',
                   Target_Profile = row_get row ''Customer Profile'',
                   Lead_ID = JStr [],
                   Status = ''FAILED'',
                   Error_Message = ''Invalid phone number''\<rparr>]\<rparr>, [], w)
        else
          Inr (a\<lparr>failed_count := failed_count a + 1,
                 results := results a @ [\<lparr>
                   Row_Number = int idx + 2,
                   First_Name = row_get row ''First Name'',
                   Last_Name = row_get row ''Last Name'',
                   Phone = Str (filter isdigit (str_cell (row_get row ''Mobile Phone''))),
                   Target_Profile = Str [],
                   Lead_ID = JStr [],
                   Status = ''FAILED'',
                   Error_Message = ''No target profile specified''\<rparr>]\<rparr>, [], w))"
proof (cases "filter isdigit (str_cell (row_get row ''Mobile Phone'')) = []")
  case True
  from loop_body_rejected [OF validate_no_digits [OF True]] True show ?thesis
    by (simp add: reject_def)
next
  case False
  from loop_body_rejected [OF validate_no_profile [OF False assms]] False show ?thesis
    by (simp add: reject_def)
qed

lemma loop_body_blank_profiles_example:
  "strip_cell (row_get row_no_profile ''Customer Profile'') = Inr []
   \<and> strip_cell (row_get row_no_profile ''Customer Profile - MOVE'') = Inr []
   \<and> loop_body repr_basic (init ''key'') 2 0 row_no_profile acc0 (sconst Timeout)
     = Inr (\<lparr>results = [\<lparr>Row_Number = 2, First_Name = Str ''Ann'', Last_Name = Str ''Lee'',
                Phone = Str ''5550100'', Target_Profile = Str [], Lead_ID = JStr [],
                Status = ''FAILED'', Error_Message = ''No target profile specified''\<rparr>],
              successful_count = 0, failed_count = 1\<rparr>, [], sconst Timeout)"
proof -
  have h1: "strip_cell (row_get row_no_profile ''Customer Profile'') = Inr []"
    by (simp add: row_no_profile_def row_get_def strip_def isspace_def)
  have h2: "strip_cell (row_get row_no_profile ''Customer Profile - MOVE'') = Inr []"
    by (simp add: row_no_profile_def row_get_def strip_def)
  from loop_body_blank_profiles [OF h1 h2, where repr = repr_basic and api = "init ''key''"
      and total_rows = 2 and idx = 0 and a = acc0 and w = "sconst Timeout"] h1 h2
  show ?thesis
    by (simp add: acc0_def row_no_profile_def row_get_def isdigit_def)
qed

text \<open>
  C4. A row whose phone has digits and whose two profile fields are both empty is to
  get the outcome \<open>FAILED\<close> with the message \<open>No target profile specified\<close>, without
  any HTTP call. It does not when the fields are empty in the CSV file: \<open>pd.read_csv\<close>
  delivers them as the float \<open>nan\<close>, as in \<open>row_empty_profiles\<close>. The phone
  \<open>5550100\<close> passes the first check, \<open>row.get('Customer Profile', '').strip()\<close> is
  called on \<open>nan\<close>, and the \<open>AttributeError\<close> leaves the loop body and \<open>process_csv\<close>:
  the row gets no outcome at all.
\<close>

theorem empty_profiles_abort_batch:
  "filter isdigit (str_cell (row_get row_empty_profiles ''Mobile Phone'')) = ''5550100''
   \<and> strip_cell (row_get row_empty_profiles ''Customer Profile'') = Inl AttributeError
   \<and> loop_body repr api total_rows idx row_empty_profiles a w = Inl AttributeError
   \<and> process_csv repr [row_empty_profiles] api_key w = Inl AttributeError"
proof -
  have "strip_cell (row_get row_empty_profiles ''Customer Profile'') = Inl AttributeError"
    by (simp add: row_empty_profiles_def row_get_def)
  moreover have "process_csv repr [row_empty_profiles] api_key w = Inl AttributeError"
    by (simp add: process_csv_def loop_body_raises [OF validate_row_empty_profiles])
  ultimately show ?thesis
    by (simp add: phone_row_empty_profiles loop_body_raises [OF validate_row_empty_profiles])
qed

text \<open>
  C5. For a row that passes both checks, if the lookup is answered with HTTP 404 the
  transport makes one call and no retry, and the outcome of the row has an empty
  \<open>Lead ID\<close>, the status \<open>FAILED\<close> and the message \<open>Lead not found\<close>.
\<close>

theorem lookup_404_row_fails:
  assumes "validate row = Inr (Accepted phone target_profile)"
    and "shd w = Response 404 body text"
    and "idx < total_rows"
  shows "make_request_with_retry api ''GET'' lookup_endpoint (Params [(''phone'', phone)]) w
           = ((False, JNull, ''Lead not found''), [lookup_call api phone], stl w)
       \<and> loop_body repr api total_rows idx row a w
           = Inr (a\<lparr>failed_count := failed_count a + 1,
                    results := results a @ [\<lparr>
                      Row_Number = int idx + 2,
                      First_Name = row_get row ''First Name'',
                      Last_Name = row_get row ''Last Name'',
                      Phone = Str phone,
                      Target_Profile = Str target_profile,
                      Lead_ID = JStr [],
                      Status = ''FAILED'',
                      Error_Message = ''Lead not found''\<rparr>]\<rparr>,
                  [processing idx total_rows (lead_name row), lookup_call api phone,
                   Progress (of_nat (idx + 1) / of_nat total_rows)] @ pause idx total_rows,
                  stl w)"
proof -
  from assms(3) have t: "total_rows \<noteq> 0" by simp
  have p: "process_lead repr api phone target_profile w
      = Inr ((False, JStr [], ''Lead not found''), [lookup_call api phone], stl w)"
    by (rule process_lead_lookup_failed [OF lookup_lead_404 [OF assms(2)]])
  show ?thesis
    using run_lead_returns [OF p t, of idx row a]
    by (simp add: loop_body_accepted [OF assms(1)] request_GET_404 [OF assms(2)] lookup_call_def)
qed

theorem lookup_404_row_fails_witness:
  "validate row_vip = Inr (Accepted ''5551234567'' ''VIP'')
   \<and> loop_body repr_basic (init ''key'') 2 0 row_vip acc0
        (Response 404 None ''Not Found'' ## sconst Timeout)
     = Inr (\<lparr>results = [\<lparr>Row_Number = 2, First_Name = Str ''Ann'', Last_Name = Str ''Lee'',
                Phone = Str ''5551234567'', Target_Profile = Str ''VIP'', Lead_ID = JStr [],
                Status = ''FAILED'', Error_Message = ''Lead not found''\<rparr>],
              successful_count = 0, failed_count = 1\<rparr>,
            [Status_text ''Processing 1/2: Ann Lee'', lookup_call (init ''key'') ''5551234567'',
             Progress (1 / 2), Sleep (1 / 10)],
            sconst Timeout)"
proof -
  have h2: "shd (Response 404 None ''Not Found'' ## sconst Timeout) = Response 404 None ''Not Found''"
    by simp
  have h3: "(0::nat) < 2" by simp
  from lookup_404_row_fails [OF validate_row_vip h2 h3, where repr = repr_basic
      and api = "init ''key''" and a = acc0]
  show ?thesis
    by (simp add: validate_row_vip acc0_def names_row_vip lead_name_row_vip processing_def
        pause_def str_nat_small)
qed

text \<open>
  C6. For a row that passes both checks and whose lookup yields a lead id, if every one
  of the \<open>MAX_RETRIES\<close> attempts of the switch is answered with HTTP 429, the transport
  makes exactly \<open>MAX_RETRIES\<close> calls for it, sleeping \<open>RETRY_DELAY * 2\<close> before each
  retry, and the outcome of the row carries the lead id, the status \<open>FAILED\<close> and the
  message \<open>Rate limited\<close>.
\<close>

theorem switch_429_exhausts_retries:
  assumes "validate row = Inr (Accepted phone target_profile)"
    and "lookup_lead repr api phone w = Inr ((True, lead_id, msg), evs, w')"
    and "\<forall>i<MAX_RETRIES. \<exists>body text. w' !! i = Response 429 body text"
    and "idx < total_rows"
  shows "switch_profile repr api lead_id target_profile w'
           = ((False, ''Rate limited''),
              [switch_call repr api lead_id target_profile, Sleep (RETRY_DELAY * 2),
               switch_call repr api lead_id target_profile, Sleep (RETRY_DELAY * 2),
               switch_call repr api lead_id target_profile], sdrop MAX_RETRIES w')
       \<and> length (filter is_request
              [switch_call repr api lead_id target_profile, Sleep (RETRY_DELAY * 2),
               switch_call repr api lead_id target_profile, Sleep (RETRY_DELAY * 2),
               switch_call repr api lead_id target_profile]) = MAX_RETRIES
       \<and> loop_body repr api total_rows idx row a w
           = Inr (a\<lparr>failed_count := failed_count a + 1,
                    results := results a @ [\<lparr>
                      Row_Number = int idx + 2,
                      First_Name = row_get row ''First Name'',
                      Last_Name = row_get row ''Last Name'',
                      Phone = Str phone,
                      Target_Profile = Str target_profile,
                      Lead_ID = lead_id,
                      Status = ''FAILED'',
                      Error_Message = ''Rate limited''\<rparr>]\<rparr>,
                  processing idx total_rows (lead_name row) # evs
                    @ [switch_call repr api lead_id target_profile, Sleep (RETRY_DELAY * 2),
                       switch_call repr api lead_id target_profile, Sleep (RETRY_DELAY * 2),
                       switch_call repr api lead_id target_profile]
                    @ [Progress (of_nat (idx + 1) / of_nat total_rows)] @ pause idx total_rows,
                  sdrop MAX_RETRIES w')"
proof -
  from assms(4) have t: "total_rows \<noteq> 0" by simp
  note s = switch_profile_429 [OF assms(3), of repr api lead_id target_profile]
  note p = process_lead_lookup_ok [OF assms(2) s]
  have c: "length (filter is_request
              [switch_call repr api lead_id target_profile, Sleep (RETRY_DELAY * 2),
               switch_call repr api lead_id target_profile, Sleep (RETRY_DELAY * 2),
               switch_call repr api lead_id target_profile]) = MAX_RETRIES"
    by (simp add: switch_call_def MAX_RETRIES_def)
  have b: "loop_body repr api total_rows idx row a w
           = Inr (a\<lparr>failed_count := failed_count a + 1,
                    results := results a @ [\<lparr>
                      Row_Number = int idx + 2,
                      First_Name = row_get row ''First Name'',
                      Last_Name = row_get row ''Last Name'',
                      Phone = Str phone,
                      Target_Profile = Str target_profile,
                      Lead_ID = lead_id,
                      Status = ''FAILED'',
                      Error_Message = ''Rate limited''\<rparr>]\<rparr>,
                  processing idx total_rows (lead_name row) # evs
                    @ [switch_call repr api lead_id target_profile, Sleep (RETRY_DELAY * 2),
                       switch_call repr api lead_id target_profile, Sleep (RETRY_DELAY * 2),
                       switch_call repr api lead_id target_profile]
                    @ [Progress (of_nat (idx + 1) / of_nat total_rows)] @ pause idx total_rows,
                  sdrop MAX_RETRIES w')"
    using run_lead_returns [OF p t, of idx row a]
    by (simp add: loop_body_accepted [OF assms(1)])
  from s c b show ?thesis by blast
qed

theorem switch_429_exhausts_retries_witness:
  "validate row_vip = Inr (Accepted ''5551234567'' ''VIP'')
   \<and> lookup_lead repr_basic (init ''key'') ''5551234567''
        (Response 200 (Some (JObj [(''id'', JStr ''abc123'')])) [] ## sconst (Response 429 None []))
      = Inr ((True, JStr ''abc123'', []), [lookup_call (init ''key'') ''5551234567''],
             sconst (Response 429 None []))
   \<and> loop_body repr_basic (init ''key'') 2 1 row_vip acc0
        (Response 200 (Some (JObj [(''id'', JStr ''abc123'')])) [] ## sconst (Response 429 None []))
     = Inr (\<lparr>results = [\<lparr>Row_Number = 3, First_Name = Str ''Ann'', Last_Name = Str ''Lee'',
                Phone = Str ''5551234567'', Target_Profile = Str ''VIP'',
                Lead_ID = JStr ''abc123'', Status = ''FAILED'', Error_Message = ''Rate limited''\<rparr>],
              successful_count = 0, failed_count = 1\<rparr>,
            [Status_text ''Processing 2/2: Ann Lee'', lookup_call (init ''key'') ''5551234567'',
             switch_call repr_basic (init ''key'') (JStr ''abc123'') ''VIP'', Sleep 2,
             switch_call repr_basic (init ''key'') (JStr ''abc123'') ''VIP'', Sleep 2,
             switch_call repr_basic (init ''key'') (JStr ''abc123'') ''VIP'',
             Progress 1],
            sconst (Response 429 None []))"
proof -
  have h2: "lookup_lead repr_basic (init ''key'') ''5551234567''
        (Response 200 (Some (JObj [(''id'', JStr ''abc123'')])) [] ## sconst (Response 429 None []))
      = Inr ((True, JStr ''abc123'', []), [lookup_call (init ''key'') ''5551234567''],
             sconst (Response 429 None []))"
    by (simp add: lookup_lead_200)
  have h3: "\<forall>i<MAX_RETRIES. \<exists>body text. sconst (Response 429 None []) !! i = Response 429 body text"
    by simp
  have h4: "(1::nat) < 2" by simp
  from switch_429_exhausts_retries [OF validate_row_vip h2 h3 h4, where a = acc0] h2
  show ?thesis
    by (simp add: validate_row_vip acc0_def names_row_vip lead_name_row_vip processing_def
        pause_def str_nat_digit RETRY_DELAY_def)
qed

text \<open>
  C7, as the specification states it: after every row, also one rejected by a check,
  progress is reported and, unless the row is the last one, a pause follows. The row
  \<open>row_dashes\<close> is rejected as the first of two rows: the loop body goes on to the next
  row at once, without the report \<open>Progress (1 / 2)\<close> and without the pause.
\<close>

theorem rejected_row_reports_nothing:
  "loop_body repr_basic (init ''key'') 2 0 row_dashes acc0 (sconst Timeout)
     = Inr (\<lparr>results = [\<lparr>Row_Number = 2, First_Name = Str ''Ann'', Last_Name = Str ''Lee'',
                Phone = Str ''---'', Target_Profile = Str ''VIP'', Lead_ID = JStr [],
                Status = ''FAILED'', Error_Message = ''Invalid phone number''\<rparr>],
              successful_count = 0, failed_count = 1\<rparr>, [], sconst Timeout)
   \<and> Progress (1 / 2) \<notin> set (events_of (loop_body repr_basic (init ''key'') 2 0 row_dashes acc0
                                            (sconst Timeout)))
   \<and> Sleep (1 / 10) \<notin> set (events_of (loop_body repr_basic (init ''key'') 2 0 row_dashes acc0
                                          (sconst Timeout)))"
  by (simp add: loop_body_rejected [OF validate_row_dashes] reject_def acc0_def names_row_dashes
      events_of_def)

text \<open>
  C7, amended: for every row that passes both checks and whose workflow returns, the
  events of the row are the status line, the events of the workflow, then the report
  of \<open>(idx + 1) / total_rows\<close> and, unless the row is the last one, a pause of a tenth of
  a second.
\<close>

theorem accepted_row_reports_progress:
  assumes "validate row = Inr (Accepted phone target_profile)"
    and "process_lead repr api phone target_profile w = Inr (r, evs, w')"
    and "idx < total_rows"
  shows "\<exists>a'. loop_body repr api total_rows idx row a w
           = Inr (a', processing idx total_rows (lead_name row) # evs
                        @ [Progress (of_nat (idx + 1) / of_nat total_rows)]
                        @ (if idx + 1 < total_rows then [Sleep (1 / 10)] else []),
                  w')"
proof -
  obtain success lead_id msg where r: "r = (success, lead_id, msg)" by (cases r)
  from assms(3) have t: "total_rows \<noteq> 0" by simp
  have "pause idx total_rows = (if idx + 1 < total_rows then [Sleep (1 / 10)] else [])"
    by (auto simp: pause_def)
  with run_lead_returns [OF assms(2) [unfolded r] t, of idx row a] show ?thesis
    by (simp add: loop_body_accepted [OF assms(1)])
qed

theorem accepted_row_reports_progress_witness:
  "validate row_vip = Inr (Accepted ''5551234567'' ''VIP'')
   \<and> process_lead repr_basic (init ''key'') ''5551234567'' ''VIP''
        (Response 404 None ''Not Found'' ## sconst Timeout)
      = Inr ((False, JStr [], ''Lead not found''), [lookup_call (init ''key'') ''5551234567''],
             sconst Timeout)
   \<and> (\<exists>a'. loop_body repr_basic (init ''key'') 2 0 row_vip acc0
               (Response 404 None ''Not Found'' ## sconst Timeout)
        = Inr (a', [Status_text ''Processing 1/2: Ann Lee'',
                    lookup_call (init ''key'') ''5551234567'', Progress (1 / 2), Sleep (1 / 10)],
               sconst Timeout))"
proof -
  have h2: "process_lead repr_basic (init ''key'') ''5551234567'' ''VIP''
        (Response 404 None ''Not Found'' ## sconst Timeout)
      = Inr ((False, JStr [], ''Lead not found''), [lookup_call (init ''key'') ''5551234567''],
             sconst Timeout)"
    using process_lead_lookup_failed [OF lookup_lead_404,
        of "Response 404 None ''Not Found'' ## sconst Timeout" None "''Not Found''"]
    by simp
  have h3: "(0::nat) < 2" by simp
  from accepted_row_reports_progress [OF validate_row_vip h2 h3, where a = acc0] h2
  show ?thesis
    by (simp add: validate_row_vip lead_name_row_vip processing_def str_nat_small)
qed

text \<open>
  C8. A row whose \<open>Mobile Phone\<close> is \<open>(555) 123-4567\<close> and whose \<open>Customer Profile\<close> is
  \<open>VIP\<close> is accepted with the phone \<open>5551234567\<close> and the target profile \<open>VIP\<close>. If
  the lookup is answered with HTTP 200 and the body \<open>{"id": "abc123"}\<close>, and the switch
  with HTTP 200 and a body that parses, the outcome of the row has the \<open>Lead ID\<close>
  \<open>abc123\<close>, the status \<open>SUCCESS\<close>, an empty message, and the row number \<open>idx + 2\<close>.
\<close>

theorem vip_scenario:
  assumes "row ''Mobile Phone'' = Some (Str ''(555) 123-4567'')"
    and "row ''Customer Profile'' = Some (Str ''VIP'')"
    and "shd w = Response 200 (Some (JObj [(''id'', JStr ''abc123'')])) text"
    and "shd (stl w) = Response 200 (Some body) text'"
    and "idx < total_rows"
  shows "validate row = Inr (Accepted ''5551234567'' ''VIP'')
       \<and> loop_body repr api total_rows idx row a w
           = Inr (a\<lparr>successful_count := successful_count a + 1,
                    results := results a @ [\<lparr>
                      Row_Number = int idx + 2,
                      First_Name = row_get row ''First Name'',
                      Last_Name = row_get row ''Last Name'',
                      Phone = Str ''5551234567'',
                      Target_Profile = Str ''VIP'',
                      Lead_ID = JStr ''abc123'',
                      Status = ''SUCCESS'',
                      Error_Message = []\<rparr>]\<rparr>,
                  [processing idx total_rows (lead_name row),
                   lookup_call api ''5551234567'',
                   switch_call repr api (JStr ''abc123'') ''VIP'',
                   Progress (of_nat (idx + 1) / of_nat total_rows)] @ pause idx total_rows,
                  stl (stl w))"
proof -
  from assms(5) have t: "total_rows \<noteq> 0" by simp
  have v: "validate row = Inr (Accepted ''5551234567'' ''VIP'')"
    by (simp add: validate_def row_get_def assms(1,2) isdigit_def strip_def isspace_def)
  have l: "lookup_lead repr api ''5551234567'' w
      = Inr ((True, JStr ''abc123'', []), [lookup_call api ''5551234567''], stl w)"
    by (simp add: lookup_lead_200 [OF assms(3)])
  note p = process_lead_lookup_ok [OF l switch_profile_200 [OF assms(4)]]
  show ?thesis
    using run_lead_returns [OF p t, where idx = idx and row = row and a = a]
    by (simp add: v loop_body_accepted [OF v])
qed

theorem vip_scenario_witness:
  "row_vip ''Mobile Phone'' = Some (Str ''(555) 123-4567'')
   \<and> row_vip ''Customer Profile'' = Some (Str ''VIP'')
   \<and> loop_body repr_basic (init ''key'') 1 0 row_vip acc0
        (Response 200 (Some (JObj [(''id'', JStr ''abc123'')])) []
           ## Response 200 (Some (JObj [])) ''{}'' ## sconst Timeout)
     = Inr (\<lparr>results = [\<lparr>Row_Number = 2, First_Name = Str ''Ann'', Last_Name = Str ''Lee'',
                Phone = Str ''5551234567'', Target_Profile = Str ''VIP'',
                Lead_ID = JStr ''abc123'', Status = ''SUCCESS'', Error_Message = []\<rparr>],
              successful_count = 1, failed_count = 0\<rparr>,
            [Status_text ''Processing 1/1: Ann Lee'', lookup_call (init ''key'') ''5551234567'',
             switch_call repr_basic (init ''key'') (JStr ''abc123'') ''VIP'', Progress 1],
            sconst Timeout)"
proof -
  have h1: "row_vip ''Mobile Phone'' = Some (Str ''(555) 123-4567'')"
    by (simp add: row_vip_def)
  have h2: "row_vip ''Customer Profile'' = Some (Str ''VIP'')"
    by (simp add: row_vip_def)
  have h3: "shd (Response 200 (Some (JObj [(''id'', JStr ''abc123'')])) []
                   ## Response 200 (Some (JObj [])) ''{}'' ## sconst Timeout)
      = Response 200 (Some (JObj [(''id'', JStr ''abc123'')])) []"
    by simp
  have h4: "shd (stl (Response 200 (Some (JObj [(''id'', JStr ''abc123'')])) []
                   ## Response 200 (Some (JObj [])) ''{}'' ## sconst Timeout))
      = Response 200 (Some (JObj [])) ''{}''"
    by simp
  have h5: "(0::nat) < 1" by simp
  from vip_scenario [OF h1 h2 h3 h4 h5, where repr = repr_basic and api = "init ''key''"
      and a = acc0] h1 h2
  show ?thesis
    by (simp add: acc0_def names_row_vip lead_name_row_vip processing_def pause_def
        str_nat_digit)
qed

text \<open>
  C9. Validation is deterministic: the verdict on a row is \<open>validate row\<close>, a value
  fixed by the row alone. Whatever the position of the row, the counts so far, the
  credential and the answers of the server, the loop body raises the same error,
  appends the same rejection, or runs the workflow on the same cleaned phone and the
  same target profile.
\<close>

theorem validation_depends_on_row_only:
  "loop_body repr api total_rows idx row a w =
     (case validate row of
        Inl e \<Rightarrow> Inl e
      | Inr (Rejected p t msg) \<Rightarrow> Inr (reject idx row p t msg a, [], w)
      | Inr (Accepted phone target_profile) \<Rightarrow>
          run_lead repr api total_rows idx row phone target_profile a w)"
  by (auto simp: validate_def loop_body_def reject_def Let_def split: if_splits sum.splits)

text \<open>
  C10. When the lookup is answered with HTTP 200 and a body that parses to a falsy
  value (\<open>{}\<close>, \<open>null\<close>, \<open>0\<close>, \<open>""\<close>, \<open>[]\<close>, \<open>false\<close>), \<open>lookup_lead\<close> fails with an empty
  message, and the outcome of an accepted row is \<open>FAILED\<close> with an empty \<open>Lead ID\<close> and
  an empty message. The diagnostic \<open>No lead ID in response\<close> is returned only when the
  transport succeeded with a truthy object whose \<open>id\<close> is absent or empty (falsy); a
  first answer of that kind does produce it.
\<close>

theorem falsy_body_fails_without_message:
  "(shd w = Response 200 (Some body) raw \<and> \<not> truthy body \<longrightarrow>
      lookup_lead repr api phone w = Inr ((False, JNull, []), [lookup_call api phone], stl w))
   \<and> (shd w = Response 200 (Some body) raw \<and> \<not> truthy body
        \<and> validate row = Inr (Accepted phone target_profile) \<and> idx < total_rows \<longrightarrow>
      loop_body repr api total_rows idx row a w
        = Inr (a\<lparr>failed_count := failed_count a + 1,
                 results := results a @ [\<lparr>
                   Row_Number = int idx + 2,
                   First_Name = row_get row ''First Name'',
                   Last_Name = row_get row ''Last Name'',
                   Phone = Str phone,
                   Target_Profile = Str target_profile,
                   Lead_ID = JStr [],
                   Status = ''FAILED'',
                   Error_Message = []\<rparr>]\<rparr>,
               [processing idx total_rows (lead_name row), lookup_call api phone,
                Progress (of_nat (idx + 1) / of_nat total_rows)] @ pause idx total_rows,
               stl w))
   \<and> (lookup_lead repr api phone w
        = Inr ((ok, d, ''No lead ID in response. Response: '' @ rest), evs, w') \<longrightarrow>
      (\<exists>kvs. make_request_with_retry api ''GET'' lookup_endpoint (Params [(''phone'', phone)]) w
                = ((True, JObj kvs, []), evs, w')
             \<and> truthy (JObj kvs)
             \<and> (case map_of kvs ''id'' of None \<Rightarrow> True | Some v \<Rightarrow> \<not> truthy v)))
   \<and> (shd w = Response 200 (Some (JObj kvs)) raw \<and> truthy (JObj kvs)
        \<and> (case map_of kvs ''id'' of None \<Rightarrow> True | Some v \<Rightarrow> \<not> truthy v) \<longrightarrow>
      lookup_lead repr api phone w
        = Inr ((False, JNull,
                ''No lead ID in response. Response: '' @ take 100 (repr (JObj kvs))),
               [lookup_call api phone], stl w))"
proof (intro conjI impI)
  assume h: "shd w = Response 200 (Some body) raw \<and> \<not> truthy body"
  then show "lookup_lead repr api phone w
      = Inr ((False, JNull, []), [lookup_call api phone], stl w)"
    by (simp add: lookup_lead_200)
next
  assume h: "shd w = Response 200 (Some body) raw \<and> \<not> truthy body
        \<and> validate row = Inr (Accepted phone target_profile) \<and> idx < total_rows"
  then have t: "total_rows \<noteq> 0" by auto
  from h have l: "lookup_lead repr api phone w
      = Inr ((False, JNull, []), [lookup_call api phone], stl w)"
    by (simp add: lookup_lead_200)
  note p = process_lead_lookup_failed [OF l, of target_profile]
  from h have v: "validate row = Inr (Accepted phone target_profile)" by simp
  show "loop_body repr api total_rows idx row a w
        = Inr (a\<lparr>failed_count := failed_count a + 1,
                 results := results a @ [\<lparr>
                   Row_Number = int idx + 2,
                   First_Name = row_get row ''First Name'',
                   Last_Name = row_get row ''Last Name'',
                   Phone = Str phone,
                   Target_Profile = Str target_profile,
                   Lead_ID = JStr [],
                   Status = ''FAILED'',
                   Error_Message = []\<rparr>]\<rparr>,
               [processing idx total_rows (lead_name row), lookup_call api phone,
                Progress (of_nat (idx + 1) / of_nat total_rows)] @ pause idx total_rows,
               stl w)"
    using run_lead_returns [OF p t, of idx row a]
    by (simp add: loop_body_accepted [OF v])
next
  assume h: "lookup_lead repr api phone w
        = Inr ((ok, d, ''No lead ID in response. Response: '' @ rest), evs, w')"
  obtain success data error evs0 w0 where
    m: "make_request_with_retry api ''GET'' lookup_endpoint (Params [(''phone'', phone)]) w
          = ((success, data, error), evs0, w0)"
    by (metis prod_cases3)
  show "\<exists>kvs. make_request_with_retry api ''GET'' lookup_endpoint (Params [(''phone'', phone)]) w
                = ((True, JObj kvs, []), evs, w')
             \<and> truthy (JObj kvs)
             \<and> (case map_of kvs ''id'' of None \<Rightarrow> True | Some v \<Rightarrow> \<not> truthy v)"
  proof (cases "success \<and> truthy data")
    case True
    with m have e: "error = []"
      by (auto simp: make_request_with_retry_def dest: attempts_success)
    from h m True e show ?thesis
      by (auto simp: lookup_lead_def Let_def split: json.splits option.splits if_splits)
  next
    case False
    with h m have "error = ''No lead ID in response. Response: '' @ rest"
      by (auto simp: lookup_lead_def)
    moreover from m have "error = [] \<or> hd error \<noteq> CHR ''N''"
      by (auto simp: make_request_with_retry_def dest: attempts_message)
    ultimately show ?thesis by simp
  qed
next
  assume h: "shd w = Response 200 (Some (JObj kvs)) raw \<and> truthy (JObj kvs)
        \<and> (case map_of kvs ''id'' of None \<Rightarrow> True | Some v \<Rightarrow> \<not> truthy v)"
  then show "lookup_lead repr api phone w
        = Inr ((False, JNull,
                ''No lead ID in response. Response: '' @ take 100 (repr (JObj kvs))),
               [lookup_call api phone], stl w)"
    by (auto simp: lookup_lead_200 split: option.splits)
qed

theorem falsy_body_fails_without_message_witness:
  "lookup_lead repr_basic (init ''key'') ''5551234567''
       (Response 200 (Some (JObj [])) ''{}'' ## sconst Timeout)
     = Inr ((False, JNull, []), [lookup_call (init ''key'') ''5551234567''], sconst Timeout)
   \<and> loop_body repr_basic (init ''key'') 1 0 row_vip acc0
       (Response 200 (Some (JObj [])) ''{}'' ## sconst Timeout)
     = Inr (\<lparr>results = [\<lparr>Row_Number = 2, First_Name = Str ''Ann'', Last_Name = Str ''Lee'',
                Phone = Str ''5551234567'', Target_Profile = Str ''VIP'', Lead_ID = JStr [],
                Status = ''FAILED'', Error_Message = []\<rparr>],
              successful_count = 0, failed_count = 1\<rparr>,
            [Status_text ''Processing 1/1: Ann Lee'', lookup_call (init ''key'') ''5551234567'',
             Progress 1],
            sconst Timeout)
   \<and> lookup_lead repr_basic (init ''key'') ''5551234567''
       (Response 200 (Some (JObj [(''id'', JNull)])) [] ## sconst Timeout)
     = Inr ((False, JNull, ''No lead ID in response. Response: {'id': None}''),
            [lookup_call (init ''key'') ''5551234567''], sconst Timeout)
   \<and> make_request_with_retry (init ''key'') ''GET'' lookup_endpoint
       (Params [(''phone'', ''5551234567'')])
       (Response 200 (Some (JObj [(''id'', JNull)])) [] ## sconst Timeout)
     = ((True, JObj [(''id'', JNull)], []), [lookup_call (init ''key'') ''5551234567''],
        sconst Timeout)"
proof -
  note t1 = falsy_body_fails_without_message [where repr = repr_basic and api = "init ''key''"
      and phone = "''5551234567''" and w = "Response 200 (Some (JObj [])) ''{}'' ## sconst Timeout"
      and body = "JObj []" and raw = "''{}''" and row = row_vip and target_profile = "''VIP''"
      and idx = 0 and total_rows = 1 and a = acc0 and kvs = "[(''id'', JNull)]"]
  note t2 = falsy_body_fails_without_message [where repr = repr_basic and api = "init ''key''"
      and phone = "''5551234567''"
      and w = "Response 200 (Some (JObj [(''id'', JNull)])) [] ## sconst Timeout"
      and raw = "[]" and kvs = "[(''id'', JNull)]" and ok = False and d = JNull
      and rest = "''{'id': None}''" and evs = "[lookup_call (init ''key'') ''5551234567'']"
      and w' = "sconst Timeout"]
  have a1: "lookup_lead repr_basic (init ''key'') ''5551234567''
       (Response 200 (Some (JObj [])) ''{}'' ## sconst Timeout)
     = Inr ((False, JNull, []), [lookup_call (init ''key'') ''5551234567''], sconst Timeout)"
    using t1 by simp
  have a2: "loop_body repr_basic (init ''key'') 1 0 row_vip acc0
       (Response 200 (Some (JObj [])) ''{}'' ## sconst Timeout)
     = Inr (\<lparr>results = [\<lparr>Row_Number = 2, First_Name = Str ''Ann'', Last_Name = Str ''Lee'',
                Phone = Str ''5551234567'', Target_Profile = Str ''VIP'', Lead_ID = JStr [],
                Status = ''FAILED'', Error_Message = []\<rparr>],
              successful_count = 0, failed_count = 1\<rparr>,
            [Status_text ''Processing 1/1: Ann Lee'', lookup_call (init ''key'') ''5551234567'',
             Progress 1],
            sconst Timeout)"
    using t1
    by (simp add: validate_row_vip acc0_def names_row_vip lead_name_row_vip processing_def
        pause_def str_nat_digit)
  have a3: "lookup_lead repr_basic (init ''key'') ''5551234567''
       (Response 200 (Some (JObj [(''id'', JNull)])) [] ## sconst Timeout)
     = Inr ((False, JNull, ''No lead ID in response. Response: {'id': None}''),
            [lookup_call (init ''key'') ''5551234567''], sconst Timeout)"
    using t2 by simp
  have a4: "make_request_with_retry (init ''key'') ''GET'' lookup_endpoint
       (Params [(''phone'', ''5551234567'')])
       (Response 200 (Some (JObj [(''id'', JNull)])) [] ## sconst Timeout)
     = ((True, JObj [(''id'', JNull)], []), [lookup_call (init ''key'') ''5551234567''],
        sconst Timeout)"
    by (simp add: request_GET_200 lookup_call_def)
  from a1 a2 a3 a4 show ?thesis by blast
qed

end
